theory Spec2Isabelle
  imports Complex_Main
begin

section \<open>Numbers and maps\<close>

text \<open>
  The source computes with JavaScript numbers. They are modelled as the reals: every
  arithmetic step is exact, and overflow, NaN and the infinities are outside the model.
  Rounding is modelled where a statement depends on it: \<open>mix_double\<close> below is
  \<open>mix\<close> with every operation rounded to the nearest double. The source divides by a computed total in three places (\<open>mix\<close>,
  \<open>normalize\<close>, \<open>pFromOdds\<close>) and never guards the divisor; where the total is
  zero JavaScript yields NaN or an infinity, which no real represents. The theorems below
  either leave such a quotient as it is written or have a non-zero divisor, by hypothesis
  or by computation.
\<close>

type_synonym Year = real
type_synonym Prob = real

text \<open>
  A \<open>Map<T, Prob>\<close> is the list of its entries in insertion order. \<open>get\<close> is
  \<open>map_of\<close> (\<open>undefined\<close> is \<open>None\<close>); \<open>set\<close> overwrites the value of
  a key that is present, in place, and appends a new key at the end.
\<close>

type_synonym 'a Ensemble = "('a \<times> Prob) list"
type_synonym 'a History = "'a Ensemble list"
type_synonym 'a TransitionFunction = "'a \<Rightarrow> 'a Ensemble"

fun map_set :: "'a \<Rightarrow> 'b \<Rightarrow> ('a \<times> 'b) list \<Rightarrow> ('a \<times> 'b) list" where
  "map_set k v [] = [(k, v)]"
| "map_set k v ((k', v') # m) = (if k' = k then (k, v) # m else (k', v') # map_set k v m)"

text \<open>\<open>new Map(entries)\<close> sets the entries one after the other.\<close>

definition new_Map :: "('a \<times> 'b) list \<Rightarrow> ('a \<times> 'b) list" where
  "new_Map entries = foldl (\<lambda>m (k, v). map_set k v m) [] entries"

text \<open>
  \<open>x || 0\<close> on a looked-up number: \<open>undefined\<close> and \<open>0\<close> are falsy and give
  \<open>0\<close>, any other number is kept.
\<close>

definition or0 :: "real option \<Rightarrow> real" where
  "or0 x = (case x of None \<Rightarrow> 0 | Some v \<Rightarrow> if v = 0 then 0 else v)"

section \<open>The transition step engine\<close>

definition step :: "'a Ensemble \<Rightarrow> 'a TransitionFunction \<Rightarrow> 'a Ensemble" where
  "step ensemble transition =
     foldl (\<lambda>result (cur, probability).
        foldl (\<lambda>result (next, nextProbability).
           (let totalProbability = probability * nextProbability;
                currentProbability = or0 (map_of result next)
            in map_set next (currentProbability + totalProbability) result))
          result (transition cur))
       [] ensemble"

text \<open>
  The loop \<open>for (let i = 0; i < nSteps; i++)\<close>, with \<open>nSteps\<close> any number: the
  counter \<open>i\<close> runs over the naturals below \<open>nSteps\<close>.
\<close>

function extrapolate_loop ::
  "'a TransitionFunction \<Rightarrow> real \<Rightarrow> nat \<Rightarrow> 'a Ensemble \<Rightarrow> 'a History \<Rightarrow> 'a History" where
  "extrapolate_loop transition nSteps i current result =
     (if real i < nSteps
      then extrapolate_loop transition nSteps (i + 1) (step current transition) (result @ [current])
      else result)"
  by pat_completeness auto
termination
proof (relation "measure (\<lambda>(transition, nSteps, i, current, result). nat \<lceil>nSteps\<rceil> - i)")
  show "wf (measure (\<lambda>(transition :: 'a TransitionFunction, nSteps :: real, i :: nat,
      current :: 'a Ensemble, result :: 'a History). nat \<lceil>nSteps\<rceil> - i))"
    by simp
next
  fix transition :: "'a TransitionFunction" and nSteps :: real and i :: nat
    and current :: "'a Ensemble" and result :: "'a History"
  assume "real i < nSteps"
  then have "int i < \<lceil>nSteps\<rceil>"
    by (simp add: less_ceiling_iff)
  then show "((transition, nSteps, i + 1, step current transition, result @ [current]),
              (transition, nSteps, i, current, result))
             \<in> measure (\<lambda>(transition, nSteps, i, current, result). nat \<lceil>nSteps\<rceil> - i)"
    by simp
qed

declare extrapolate_loop.simps [simp del]

definition extrapolate :: "'a \<Rightarrow> 'a TransitionFunction \<Rightarrow> real \<Rightarrow> 'a History" where
  "extrapolate start transition nSteps =
     extrapolate_loop transition nSteps 0 (new_Map [(start, 1)]) []"

section \<open>The distribution and trajectory mixer\<close>

text \<open>The local constant \<open>totalWeight\<close> of \<open>mix\<close>.\<close>

definition totalWeight_of :: "('a Ensemble \<times> real) list \<Rightarrow> real" where
  "totalWeight_of ensembles = foldl (\<lambda>acc (_, weight). acc + weight) 0 ensembles"

definition mix :: "('a Ensemble \<times> real) list \<Rightarrow> 'a Ensemble" where
  "mix ensembles =
     (let totalWeight = totalWeight_of ensembles
      in foldl (\<lambda>result (ensemble, weight).
           foldl (\<lambda>result (v, probability).
              (let currentProbability = or0 (map_of result v)
               in map_set v (currentProbability + (probability * weight) / totalWeight) result))
             result ensemble)
          [] ensembles)"

text \<open>
  The same function in double arithmetic. A double has a significand of 53 bits and an
  exponent of at least \<open>-1022\<close>, so the doubles around \<open>x\<close> are the integer
  multiples of \<open>2\<close> to the power \<open>double_exponent x\<close>; every operation of
  JavaScript returns the double nearest to the exact result, a tie going to the even
  significand. A result beyond the largest double is an infinity, outside the model.
\<close>

definition round_even :: "real \<Rightarrow> int" where
  "round_even y =
     (let n = \<lfloor>y\<rfloor>; r = y - of_int n
      in if r < 1 / 2 then n else if 1 / 2 < r then n + 1 else if even n then n else n + 1)"

definition double_exponent :: "real \<Rightarrow> int" where
  "double_exponent x = max \<lfloor>log 2 \<bar>x\<bar>\<rfloor> (- 1022) - 52"

definition double_of :: "real \<Rightarrow> real" where
  "double_of x =
     (if x = 0 then 0
      else of_int (round_even (x / 2 powr of_int (double_exponent x)))
             * 2 powr of_int (double_exponent x))"

definition totalWeight_double :: "('a Ensemble \<times> real) list \<Rightarrow> real" where
  "totalWeight_double ensembles =
     foldl (\<lambda>acc (_, weight). double_of (acc + weight)) 0 ensembles"

definition mix_double :: "('a Ensemble \<times> real) list \<Rightarrow> 'a Ensemble" where
  "mix_double ensembles =
     (let totalWeight = totalWeight_double ensembles
      in foldl (\<lambda>result (ensemble, weight).
           foldl (\<lambda>result (v, probability).
              (let currentProbability = or0 (map_of result v)
               in map_set v
                    (double_of (currentProbability
                       + double_of (double_of (probability * weight) / totalWeight)))
                    result))
             result ensemble)
          [] ensembles)"

text \<open>
  \<open>mixHistories\<close> reads \<open>histories[0][0].length\<close>, which throws a TypeError on an
  empty array, and passes \<open>history[i]\<close> to \<open>mix\<close>, which throws a TypeError at
  \<open>ensemble.entries()\<close> when a history is shorter than the first one. The exception
  leaves the function, so the result is a sum.
\<close>

datatype error = TypeError

definition mix_at :: "('a History \<times> real) list \<Rightarrow> nat \<Rightarrow> error + 'a Ensemble" where
  "mix_at histories i =
     (if list_all (\<lambda>(history, weight). i < length history) histories
      then Inr (mix (map (\<lambda>(history, weight). (history ! i, weight)) histories))
      else Inl TypeError)"

fun mixHistories_loop ::
  "('a History \<times> real) list \<Rightarrow> nat list \<Rightarrow> 'a History \<Rightarrow> error + 'a History" where
  "mixHistories_loop histories [] result = Inr result"
| "mixHistories_loop histories (i # is) result =
     (case mix_at histories i of
        Inl e \<Rightarrow> Inl e
      | Inr m \<Rightarrow> mixHistories_loop histories is (result @ [m]))"

definition mixHistories :: "('a History \<times> real) list \<Rightarrow> error + 'a History" where
  "mixHistories histories =
     (case histories of
        [] \<Rightarrow> Inl TypeError
      | (history0, weight0) # _ \<Rightarrow> mixHistories_loop histories [0 ..< length history0] [])"

text \<open>
  A \<open>Map\<close> keyed by functions compares its keys by reference, so its entries never
  merge: it is the list of its (function, weight) entries.
\<close>

definition extrapolateAndMix ::
  "'a \<Rightarrow> ('a TransitionFunction \<times> Prob) list \<Rightarrow> real \<Rightarrow> error + 'a History" where
  "extrapolateAndMix start models nSteps =
     mixHistories (map (\<lambda>(model, weight). (extrapolate start model nSteps, weight)) models)"

section \<open>The odds normalizer\<close>

text \<open>
  \<open>normalize\<close> rebuilds a \<open>Map\<close> from the entries of a \<open>Map\<close>: the keys are
  unique already, so every entry is kept, in order, with its value divided by the total.
  The local constant \<open>total\<close> of the source is \<open>total_of\<close>.
\<close>

definition total_of :: "('a \<times> real) list \<Rightarrow> real" where
  "total_of ensemble = foldl (\<lambda>a b. a + b) 0 (map snd ensemble)"

definition normalize_map :: "('a \<times> real) list \<Rightarrow> 'a Ensemble" where
  "normalize_map ensemble =
     (let total = total_of ensemble
      in map (\<lambda>(k, v). (k, v / total)) ensemble)"

text \<open>
  The odds objects are records. \<open>{ dead; reset }\<close> is the odds type of the nuke and
  plague models, and the AGI odds have the further field \<open>heaven\<close>. \<open>pFromOdds\<close>
  takes the key as the field selector, and \<open>Object.values\<close> as the list of the
  fields of the object's type, in the order the source writes them.
\<close>

record Odds =
  dead :: real
  reset :: real

record AGIOdds = Odds +
  heaven :: real

definition Odds_values :: "Odds \<Rightarrow> real list" where
  "Odds_values obj = [dead obj, reset obj]"

definition AGIOdds_values :: "AGIOdds \<Rightarrow> real list" where
  "AGIOdds_values obj = [heaven obj, dead obj, reset obj]"

definition pFromOdds :: "('o \<Rightarrow> real list) \<Rightarrow> 'o \<Rightarrow> ('o \<Rightarrow> real) \<Rightarrow> Prob" where
  "pFromOdds object_values obj key = key obj / foldl (\<lambda>a b. a + b) 0 (object_values obj)"

section \<open>The domain transition model\<close>

datatype World = Year Year | Dead | Heaven | Reset

record 'o ModelResult =
  p :: Prob
  odds :: 'o

type_synonym SimpleAGIModel = "Year \<Rightarrow> AGIOdds ModelResult"
type_synonym SimpleNukeModel = "Year \<Rightarrow> Odds ModelResult"
type_synonym SimplePlagueModel = "Year \<Rightarrow> Odds ModelResult"

record Opts =
  agi :: SimpleAGIModel
  nukes :: SimpleNukeModel
  plague :: SimplePlagueModel

fun simpleTransitionFunction :: "Opts \<Rightarrow> World TransitionFunction" where
  "simpleTransitionFunction opts Dead = new_Map [(Dead, 1)]"
| "simpleTransitionFunction opts Heaven = new_Map [(Heaven, 1)]"
| "simpleTransitionFunction opts Reset = new_Map [(Reset, 1)]"
| "simpleTransitionFunction opts (Year year) =
     (let agi = agi opts year;
          nukes = nukes opts year;
          plague = plague opts year;
          pHeaven = p agi * pFromOdds AGIOdds_values (odds agi) heaven;
          pDead =
            p agi * pFromOdds AGIOdds_values (odds agi) dead +
            p nukes * pFromOdds Odds_values (odds nukes) dead +
            p plague * pFromOdds Odds_values (odds plague) dead;
          pReset =
            p agi * pFromOdds AGIOdds_values (odds agi) reset +
            p nukes * pFromOdds Odds_values (odds nukes) reset +
            p plague * pFromOdds Odds_values (odds plague) reset
      in new_Map [
           (Heaven, pHeaven),
           (Dead, pDead),
           (Reset, pReset),
           (Year (year + 1), 1 - pHeaven - pDead - pReset)])"

definition stdSigmoid :: "real \<Rightarrow> real" where
  "stdSigmoid x = 1 / (1 + exp (- x))"

text \<open>
  The four AGI models, the nuke model and the two plague models of \<open>buildModels\<close>, in
  the order of the source. \<open>2 ** x\<close> is \<open>2 powr x\<close>.
\<close>

definition agiModel1 :: "real \<Rightarrow> SimpleAGIModel" where
  "agiModel1 accelerationFromWorking year =
     \<lparr> p = min 1 (accelerationFromWorking * 0.05 * 2 powr ((year - 2022) / 10)),
       odds = \<lparr> dead = 1 - stdSigmoid ((year - 2080) / 20),
                reset = 0,
                heaven = stdSigmoid ((year - 2080) / 20) \<rparr> \<rparr>"

definition agiModel2 :: "real \<Rightarrow> SimpleAGIModel" where
  "agiModel2 accelerationFromWorking year =
     \<lparr> p = min 1 (accelerationFromWorking * 0.02 * 2 powr ((year - 2022) / 10)),
       odds = \<lparr> dead = ((1 - stdSigmoid ((year - 2030) / 10)) * 2) / 3,
                reset = ((1 - stdSigmoid ((year - 2030) / 10)) * 1) / 3,
                heaven = stdSigmoid ((year - 2030) / 10) \<rparr> \<rparr>"

definition agiModel3 :: "real \<Rightarrow> SimpleAGIModel" where
  "agiModel3 accelerationFromWorking year =
     \<lparr> p = min 1 (accelerationFromWorking * 0.03 * 2 powr ((year - 2022) / 10)),
       odds = \<lparr> dead = (1 - stdSigmoid ((year - 2080) / 20)) / 2,
                reset = (1 - stdSigmoid ((year - 2080) / 20)) / 2,
                heaven = stdSigmoid ((year - 2080) / 20) \<rparr> \<rparr>"

definition agiModel4 :: "real \<Rightarrow> SimpleAGIModel" where
  "agiModel4 accelerationFromWorking year =
     \<lparr> p = min 1 (accelerationFromWorking * 0.001 * 2 powr ((year - 2022) / 30)),
       odds = \<lparr> dead = 0,
                reset = 0,
                heaven = stdSigmoid ((year - 2080) / 20) \<rparr> \<rparr>"

definition nukesModel1 :: SimpleNukeModel where
  "nukesModel1 year = \<lparr> p = 0.01, odds = \<lparr> dead = 0.1, reset = 0.9 \<rparr> \<rparr>"

definition plagueModel1 :: SimplePlagueModel where
  "plagueModel1 year = \<lparr> p = 0.005, odds = \<lparr> dead = 0.1, reset = 0.9 \<rparr> \<rparr>"

definition plagueModel2 :: SimplePlagueModel where
  "plagueModel2 year = \<lparr> p = 0, odds = \<lparr> dead = 0, reset = 1 \<rparr> \<rparr>"

text \<open>
  The maps of \<open>buildModels\<close> are keyed by function objects, each a closure of its own,
  so no two entries share a key. \<open>flatMap\<close> is \<open>concat\<close> of \<open>map\<close>.
\<close>

definition buildModels :: "bool \<Rightarrow> (World TransitionFunction \<times> Prob) list" where
  "buildModels work =
     (let accelerationFromWorking = 1 + (if work then 1 / 10 ^ 7 else 0);
          agiModels = normalize_map [
            (agiModel1 accelerationFromWorking, 1),
            (agiModel2 accelerationFromWorking, 1),
            (agiModel3 accelerationFromWorking, 1),
            (agiModel4 accelerationFromWorking, 0.2)];
          nukesModels = normalize_map [(nukesModel1, 1)];
          plagueModels = normalize_map [(plagueModel1, 1), (plagueModel2, 1)]
      in normalize_map
           (concat (map (\<lambda>(agi, agiP).
              concat (map (\<lambda>(nukes, nukesP).
                map (\<lambda>(plague, plagueP).
                  (simpleTransitionFunction \<lparr> agi = agi, nukes = nukes, plague = plague \<rparr>,
                   agiP * nukesP * plagueP))
                  plagueModels)
                nukesModels))
              agiModels)))"

section \<open>Sums of map values\<close>

lemma foldl_add_sum_list: "foldl (\<lambda>a b. a + b) a xs = a + sum_list (xs :: real list)"
  by (induction xs arbitrary: a) simp_all

lemma total_of_sum_list: "total_of m = sum_list (map snd m)"
  by (simp add: total_of_def foldl_add_sum_list)


text \<open>Adding \<open>v\<close> to the entry of \<open>k\<close>, present or not, adds \<open>v\<close> to the sum.\<close>

lemma sum_list_map_set_add:
  "sum_list (map snd (map_set k (or0 (map_of m k) + v) m)) = sum_list (map snd m) + v"
  by (induction m) (auto simp: or0_def)

lemma map_set_fresh: "k \<notin> fst ` set m \<Longrightarrow> map_set k v m = m @ [(k, v)]"
  by (induction m) auto

lemma map_of_fresh: "k \<notin> fst ` set m \<Longrightarrow> map_of m k = None"
  by (simp add: map_of_eq_None_iff)

lemma new_Map_single: "new_Map [(k, v)] = [(k, v)]"
  by (simp add: new_Map_def)

section \<open>The step conserves mass\<close>

lemma step_inner_total:
  "sum_list (map snd (foldl (\<lambda>result (next, nextProbability).
       map_set next (or0 (map_of result next) + c * nextProbability) result) m ys))
   = sum_list (map snd m) + c * sum_list (map snd ys)"
proof (induction ys arbitrary: m)
  case Nil
  then show ?case by simp
next
  case (Cons y ys)
  obtain k v where y: "y = (k, v)" by (cases y)
  have "sum_list (map snd (foldl (\<lambda>result (next, nextProbability).
       map_set next (or0 (map_of result next) + c * nextProbability) result) m (y # ys)))
      = sum_list (map snd (map_set k (or0 (map_of m k) + c * v) m)) + c * sum_list (map snd ys)"
    by (simp add: y Cons.IH)
  also have "\<dots> = sum_list (map snd m) + c * v + c * sum_list (map snd ys)"
    by (simp only: sum_list_map_set_add)
  finally show ?case
    by (simp add: y algebra_simps)
qed

lemma step_outer_total:
  "sum_list (map snd (foldl (\<lambda>result (cur, probability).
        foldl (\<lambda>result (next, nextProbability).
           map_set next (or0 (map_of result next) + probability * nextProbability) result)
          result (transition cur)) m ensemble))
   = sum_list (map snd m)
     + (\<Sum>(cur, probability) \<leftarrow> ensemble. probability * total_of (transition cur))"
proof (induction ensemble arbitrary: m)
  case Nil
  then show ?case by simp
next
  case (Cons e ensemble)
  obtain cur pr where e: "e = (cur, pr)" by (cases e)
  show ?case
    by (simp add: e Cons.IH step_inner_total total_of_sum_list)
qed

lemma total_of_step:
  "total_of (step ensemble transition)
   = (\<Sum>(cur, probability) \<leftarrow> ensemble. probability * total_of (transition cur))"
  using step_outer_total [of transition "[]" ensemble]
  by (simp add: step_def total_of_sum_list Let_def)

text \<open>
  C1. If the probabilities of the input distribution sum to 1 and the transition function
  returns a distribution summing to 1 for every outcome that the input gives a non-zero
  probability, then the probabilities of the distribution returned by \<open>step\<close> sum to 1.
\<close>

theorem step_conserves_mass:
  assumes "total_of ensemble = 1"
    and "\<forall>(cur, probability) \<in> set ensemble.
           probability \<noteq> 0 \<longrightarrow> total_of (transition cur) = 1"
  shows "total_of (step ensemble transition) = 1"
proof -
  have "(\<Sum>(cur, probability) \<leftarrow> ensemble. probability * total_of (transition cur))
        = (\<Sum>(cur, probability) \<leftarrow> ensemble. probability)"
    using assms(2) by (intro arg_cong [where f = sum_list] map_cong refl) auto
  also have "\<dots> = total_of ensemble"
    by (simp add: total_of_sum_list case_prod_unfold)
  finally show ?thesis
    by (simp add: total_of_step assms(1))
qed

theorem step_conserves_mass_witness:
  "total_of [(Year 2022, 1 / 4), (Dead, 3 / 4)] = 1
 \<and> total_of (step [(Year 2022, 1 / 4), (Dead, 3 / 4)]
      (\<lambda>w. case w of Year y \<Rightarrow> [(Year (y + 1), 9 / 10), (Dead, 1 / 10)] | _ \<Rightarrow> [(w, 1)])) = 1"
  using step_conserves_mass [of "[(Year 2022, 1 / 4), (Dead, 3 / 4)]"
      "\<lambda>w. case w of Year y \<Rightarrow> [(Year (y + 1), 9 / 10), (Dead, 1 / 10)] | _ \<Rightarrow> [(w, 1)]"]
  by (simp add: total_of_def)

section \<open>The trajectory of extrapolate\<close>

lemma extrapolate_loop_closed:
  "i \<le> n \<Longrightarrow> extrapolate_loop transition (real n) i current result
     = result @ map (\<lambda>j. ((\<lambda>d. step d transition) ^^ j) current) [0 ..< n - i]"
proof (induction "n - i" arbitrary: i current result)
  case 0
  then have "i = n" by simp
  then show ?case
    by (subst extrapolate_loop.simps) simp
next
  case (Suc k)
  then have lt: "i < n" and k: "k = n - (i + 1)" and le: "i + 1 \<le> n" by simp_all
  have split: "[0 ..< n - i] = 0 # map Suc [0 ..< n - (i + 1)]"
    using lt by (metis Suc.hyps(2) k map_Suc_upt upt_conv_Cons zero_less_Suc)
  have "extrapolate_loop transition (real n) i current result
      = extrapolate_loop transition (real n) (i + 1) (step current transition) (result @ [current])"
    using lt by (subst extrapolate_loop.simps) simp
  also have "\<dots> = (result @ [current])
      @ map (\<lambda>j. ((\<lambda>d. step d transition) ^^ j) (step current transition)) [0 ..< n - (i + 1)]"
    using Suc.hyps(1) [OF k le] .
  also have "\<dots> = result @ map (\<lambda>j. ((\<lambda>d. step d transition) ^^ j) current) [0 ..< n - i]"
    using funpow_swap1 [of "\<lambda>d. step d transition" _ current]
    by (simp add: split comp_def)
  finally show ?case .
qed

lemma extrapolate_closed:
  "extrapolate start transition (real n)
     = map (\<lambda>j. ((\<lambda>d. step d transition) ^^ j) [(start, 1)]) [0 ..< n]"
  using extrapolate_loop_closed [of 0 n transition "[(start, 1)]" "[]"]
  by (simp add: extrapolate_def new_Map_single)

text \<open>
  C2. For a positive step count \<open>n\<close>, \<open>extrapolate start transition n\<close> is a
  trajectory of exactly \<open>n\<close> distributions, its element at index 0 is the point mass
  \<open>{start: 1}\<close>, and its element at every index \<open>i < n\<close> is the point mass after
  \<open>i\<close> applications of \<open>step\<close>.
\<close>

theorem extrapolate_trajectory:
  assumes "0 < n"
  shows "length (extrapolate start transition (real n)) = n
       \<and> extrapolate start transition (real n) ! 0 = [(start, 1)]
       \<and> (\<forall>i < n. extrapolate start transition (real n) ! i
                     = ((\<lambda>d. step d transition) ^^ i) [(start, 1)])"
  using assms by (simp add: extrapolate_closed)

theorem extrapolate_trajectory_witness:
  "length (extrapolate (Year 2022) (\<lambda>w. [(Dead, 1)]) 3) = 3
 \<and> extrapolate (Year 2022) (\<lambda>w. [(Dead, 1)]) 3 ! 0 = [(Year 2022, 1)]
 \<and> extrapolate (Year 2022) (\<lambda>w. [(Dead, 1)]) 3 ! 2
     = step (step [(Year 2022, 1)] (\<lambda>w. [(Dead, 1)])) (\<lambda>w. [(Dead, 1)])"
  using extrapolate_trajectory [of 3 "Year 2022" "\<lambda>w. [(Dead, 1)]"]
  by (simp add: numeral_2_eq_2)

section \<open>Mixing\<close>







lemma mix_inner_fresh:
  "distinct (map fst d) \<Longrightarrow> fst ` set m \<inter> fst ` set d = {} \<Longrightarrow>
   foldl (\<lambda>result (v, probability).
       map_set v (or0 (map_of result v) + (probability * w) / W) result) m d
   = m @ map (\<lambda>(v, probability). (v, (probability * w) / W)) d"
proof (induction d arbitrary: m)
  case Nil
  then show ?case by simp
next
  case (Cons e d)
  obtain k v where e: "e = (k, v)" by (cases e)
  have fresh: "k \<notin> fst ` set m"
    using Cons.prems(2) by (auto simp: e)
  have disj: "fst ` set (m @ [(k, (v * w) / W)]) \<inter> fst ` set d = {}"
    using Cons.prems by (auto simp: e)
  have dist: "distinct (map fst d)"
    using Cons.prems(1) by simp
  show ?case
    using Cons.IH [OF dist disj]
    by (simp add: e map_set_fresh [OF fresh] map_of_fresh [OF fresh] or0_def)
qed

text \<open>In exact arithmetic, \<open>mix\<close> of a single pair gives the distribution back.\<close>

lemma mix_single_exact:
  assumes "distinct (map fst d)" and "0 < w"
  shows "mix [(d, w)] = d"
proof -
  have "map (\<lambda>(v, probability). (v, (probability * w) / w)) d = d"
    using assms(2) by (induction d) auto
  then show ?thesis
    using mix_inner_fresh [of d "[]" w w] assms(1)
    by (simp add: mix_def totalWeight_of_def)
qed

subsection \<open>A single pair in double arithmetic\<close>

lemma mix_double_inner_fresh:
  "distinct (map fst d) \<Longrightarrow> fst ` set m \<inter> fst ` set d = {} \<Longrightarrow>
   foldl (\<lambda>result (v, probability).
       map_set v (double_of (or0 (map_of result v)
          + double_of (double_of (probability * w) / W))) result) m d
   = m @ map (\<lambda>(v, probability).
        (v, double_of (double_of (double_of (probability * w) / W)))) d"
proof (induction d arbitrary: m)
  case Nil
  then show ?case by simp
next
  case (Cons e d)
  obtain k v where e: "e = (k, v)" by (cases e)
  have fresh: "k \<notin> fst ` set m"
    using Cons.prems(2) by (auto simp: e)
  have disj: "fst ` set (m @ [(k, double_of (double_of (double_of (v * w) / W)))])
      \<inter> fst ` set d = {}"
    using Cons.prems by (auto simp: e)
  have dist: "distinct (map fst d)"
    using Cons.prems(1) by simp
  show ?case
    using Cons.IH [OF dist disj]
    by (simp add: e map_set_fresh [OF fresh] map_of_fresh [OF fresh] or0_def)
qed

lemma mix_double_single:
  assumes "distinct (map fst d)"
  shows "mix_double [(d, w)]
       = map (\<lambda>(v, probability).
           (v, double_of (double_of (double_of (probability * w) / double_of w)))) d"
  using mix_double_inner_fresh [of d "[]" w "double_of w"] assms
  by (simp add: mix_double_def totalWeight_double_def)

text \<open>
  The double nearest to \<open>x\<close>, computed from a scaling of \<open>x\<close> into the range of
  the 53-bit integers.
\<close>

lemma double_of_scaled:
  assumes lo: "2 ^ 52 \<le> \<bar>x\<bar> * 2 ^ k" and hi: "\<bar>x\<bar> * 2 ^ k < 2 ^ 53" and k: "k \<le> 1074"
  shows "double_of x = of_int (round_even (x * 2 ^ k)) / 2 ^ k"
proof -
  have x0: "x \<noteq> 0" using lo by auto
  then have pos: "0 < \<bar>x\<bar>" by simp
  have "2 powr (52 - real k) \<le> \<bar>x\<bar>"
    using lo by (simp add: powr_diff powr_realpow divide_le_eq)
  then have l1: "52 - real k \<le> log 2 \<bar>x\<bar>"
    using pos by (simp add: le_log_iff)
  have "\<bar>x\<bar> < 2 powr (53 - real k)"
    using hi by (simp add: powr_diff powr_realpow less_divide_eq)
  then have l2: "log 2 \<bar>x\<bar> < 53 - real k"
    using pos by (simp add: log_less_iff)
  have "\<lfloor>log 2 \<bar>x\<bar>\<rfloor> = 52 - int k"
    using l1 l2 by (intro floor_unique) simp_all
  then have e: "double_exponent x = - int k"
    using k by (simp add: double_exponent_def)
  have p: "(2 :: real) powr of_int (- int k) = 1 / 2 ^ k"
    by (simp add: powr_minus powr_realpow divide_simps)
  show ?thesis
    using x0 by (simp add: double_of_def e p del: of_int_minus)
qed

text \<open>
  The doubles of the example: the literals \<open>0.1\<close>, \<open>0.9\<close> and \<open>3\<close>, the
  products with 3 and the quotients by 3.
\<close>

lemma double_of_tenth: "double_of (1 / 10) = 7205759403792794 / 2 ^ 56"
  by (subst double_of_scaled [where k = 56]) (simp_all add: round_even_def)

lemma double_of_nine_tenths: "double_of (9 / 10) = 8106479329266893 / 2 ^ 53"
  by (subst double_of_scaled [where k = 53]) (simp_all add: round_even_def)

lemma double_of_three: "double_of 3 = 3"
  by (subst double_of_scaled [where k = 51]) (simp_all add: round_even_def)

lemma double_of_tenth_times_three:
  "double_of (7205759403792794 / 2 ^ 56 * 3) = 5404319552844596 / 2 ^ 54"
  by (subst double_of_scaled [where k = 54]) (simp_all add: round_even_def)

lemma double_of_tenth_quotient:
  "double_of (5404319552844596 / 2 ^ 54 / 3) = 7205759403792795 / 2 ^ 56"
  by (subst double_of_scaled [where k = 56]) (simp_all add: round_even_def)

lemma double_of_tenth_result:
  "double_of (7205759403792795 / 2 ^ 56) = 7205759403792795 / 2 ^ 56"
  by (subst double_of_scaled [where k = 56]) (simp_all add: round_even_def)

lemma double_of_nine_tenths_times_three:
  "double_of (8106479329266893 / 2 ^ 53 * 3) = 6079859496950170 / 2 ^ 51"
  by (subst double_of_scaled [where k = 51]) (simp_all add: round_even_def)

lemma double_of_nine_tenths_quotient:
  "double_of (6079859496950170 / 2 ^ 51 / 3) = 8106479329266893 / 2 ^ 53"
  by (subst double_of_scaled [where k = 53]) (simp_all add: round_even_def)

lemma double_of_nine_tenths_result:
  "double_of (8106479329266893 / 2 ^ 53) = 8106479329266893 / 2 ^ 53"
  by (subst double_of_scaled [where k = 53]) (simp_all add: round_even_def)

text \<open>
  C7, as the claim states it, fails: in doubles, \<open>mix\<close> of the single pair of
  \<open>{2023: 0.9, dead: 0.1}\<close> and the weight 3 gives \<open>dead\<close> the probability
  \<open>7205759403792795 / 2^56\<close>, printed \<open>0.10000000000000002\<close>, which is the
  double after \<open>0.1 = 7205759403792794 / 2^56\<close>: the product \<open>0.1 * 3\<close> is
  rounded up to \<open>0.30000000000000004\<close>, and its quotient by 3 is rounded again.
\<close>

theorem mix_singleton_counterexample:
  "double_of (9 / 10) = 8106479329266893 / 2 ^ 53
 \<and> double_of (1 / 10) = 7205759403792794 / 2 ^ 56
 \<and> mix_double [([(Year 2023, double_of (9 / 10)), (Dead, double_of (1 / 10))], 3)]
     = [(Year 2023, 8106479329266893 / 2 ^ 53), (Dead, 7205759403792795 / 2 ^ 56)]
 \<and> mix_double [([(Year 2023, double_of (9 / 10)), (Dead, double_of (1 / 10))], 3)]
     \<noteq> [(Year 2023, double_of (9 / 10)), (Dead, double_of (1 / 10))]"
proof -
  have "distinct (map fst [(Year 2023, 8106479329266893 / 2 ^ 53 :: real),
      (Dead, 7205759403792794 / 2 ^ 56)])"
    by simp
  then have "mix_double [([(Year 2023, 8106479329266893 / 2 ^ 53),
        (Dead, 7205759403792794 / 2 ^ 56)], 3)]
     = [(Year 2023,
          double_of (double_of (double_of (8106479329266893 / 2 ^ 53 * 3) / double_of 3))),
        (Dead,
          double_of (double_of (double_of (7205759403792794 / 2 ^ 56 * 3) / double_of 3)))]"
    by (simp only: mix_double_single list.map prod.case)
  then have m: "mix_double [([(Year 2023, double_of (9 / 10)), (Dead, double_of (1 / 10))], 3)]
     = [(Year 2023, 8106479329266893 / 2 ^ 53), (Dead, 7205759403792795 / 2 ^ 56)]"
    by (simp only: double_of_tenth double_of_nine_tenths double_of_three
        double_of_tenth_times_three double_of_tenth_quotient double_of_tenth_result
        double_of_nine_tenths_times_three double_of_nine_tenths_quotient
        double_of_nine_tenths_result)
  show ?thesis
    unfolding m by (simp add: double_of_tenth double_of_nine_tenths)
qed

text \<open>
  C7, amended. For a distribution \<open>d\<close> (a \<open>Map\<close>: its keys are distinct) and a
  weight \<open>w > 0\<close>, \<open>mix\<close> of the single pair \<open>(d, w)\<close> has the outcomes of
  \<open>d\<close>, in the same order, each with the probability \<open>(p * w) / w\<close> computed
  from its probability \<open>p\<close> in \<open>d\<close>. In exact arithmetic this is \<open>p\<close> and the
  result is \<open>d\<close>. In double arithmetic it is the rounded quotient of the rounded product
  \<open>p * w\<close> by the rounded total weight \<open>0 + w\<close>, rounded once more by the sum with
  0, and it need not be \<open>p\<close>.
\<close>

theorem mix_singleton_rounding:
  assumes "distinct (map fst d)" and "0 < w"
  shows "mix [(d, w)] = d
       \<and> mix_double [(d, w)]
           = map (\<lambda>(v, probability).
               (v, double_of (double_of (double_of (probability * w) / double_of w)))) d"
  using mix_single_exact [OF assms] mix_double_single [OF assms(1)]
  by simp

theorem mix_singleton_rounding_witness:
  "mix [([(Year 2023, 9 / 10), (Dead, 1 / 10)], 3)] = [(Year 2023, 9 / 10), (Dead, 1 / 10)]
 \<and> mix_double [([(Year 2023, 9 / 10), (Dead, 1 / 10)], 3)]
     = [(Year 2023, double_of (double_of (double_of (27 / 10) / double_of 3))),
        (Dead, double_of (double_of (double_of (3 / 10) / double_of 3)))]"
  using mix_singleton_rounding [of "[(Year 2023, 9 / 10), (Dead, 1 / 10)]" 3]
  by simp

section \<open>A scenario\<close>

text \<open>
  C8. From the start year 2022, with one transition function of ensemble weight 1 that
  sends a year to the next year with probability 0.9 and to \<open>dead\<close> with probability
  0.1 (and keeps \<open>dead\<close> where it is), \<open>extrapolateAndMix\<close> over 3 steps returns
  the trajectory \<open>[{2022: 1}, {2023: 0.9, dead: 0.1}, {2024: 0.81, dead: 0.19}]\<close>.
\<close>

theorem scenario_example:
  assumes "f (Year 2022) = [(Year 2023, 0.9), (Dead, 0.1)]"
    and "f (Year 2023) = [(Year 2024, 0.9), (Dead, 0.1)]"
    and "f Dead = [(Dead, 1)]"
  shows "extrapolateAndMix (Year 2022) [(f, 1)] 3
       = Inr [[(Year 2022, 1)],
              [(Year 2023, 0.9), (Dead, 0.1)],
              [(Year 2024, 0.81), (Dead, 0.19)]]"
proof -
  have e: "extrapolate (Year 2022) f 3
       = [[(Year 2022, 1)],
          [(Year 2023, 0.9), (Dead, 0.1)],
          [(Year 2024, 0.81), (Dead, 0.19)]]"
    using extrapolate_closed [of "Year 2022" f 3]
    by (simp add: upt_rec numeral_3_eq_3 step_def or0_def assms)
  show ?thesis
    by (simp add: extrapolateAndMix_def e mixHistories_def mix_at_def mix_def
        totalWeight_of_def or0_def upt_rec)
qed

theorem scenario_example_witness:
  "extrapolateAndMix (Year 2022)
     [(\<lambda>w. case w of Year y \<Rightarrow> [(Year (y + 1), 0.9), (Dead, 0.1)] | _ \<Rightarrow> [(w, 1)], 1)] 3
   = Inr [[(Year 2022, 1)],
          [(Year 2023, 0.9), (Dead, 0.1)],
          [(Year 2024, 0.81), (Dead, 0.19)]]"
  using scenario_example
    [of "\<lambda>w. case w of Year y \<Rightarrow> [(Year (y + 1), 0.9), (Dead, 0.1)] | _ \<Rightarrow> [(w, 1)]"]
  by simp

section \<open>The combined transition function\<close>

lemma new_Map_four:
  "new_Map [(Heaven, a), (Dead, b), (Reset, c), (Year y, d)]
     = [(Heaven, a), (Dead, b), (Reset, c), (Year y, d)]"
  by (simp add: new_Map_def)

text \<open>
  C5. Whatever the AGI, nuke and plague models are, the combined transition function
  sends each of \<open>dead\<close>, \<open>heaven\<close> and \<open>reset\<close> to the distribution whose only
  entry is that outcome, with probability 1.
\<close>

theorem sentinels_absorbing:
  "simpleTransitionFunction opts Dead = [(Dead, 1)]
 \<and> simpleTransitionFunction opts Heaven = [(Heaven, 1)]
 \<and> simpleTransitionFunction opts Reset = [(Reset, 1)]"
  by (simp add: new_Map_single)

text \<open>
  C6. On a year, the combined transition function gives \<open>heaven\<close> the AGI probability
  times the AGI odds fraction of \<open>heaven\<close>; it gives \<open>dead\<close> the sum, over the AGI,
  nuke and plague models, of the model's probability times its odds fraction of
  \<open>dead\<close>; it gives \<open>reset\<close> the same sum for \<open>reset\<close>; and it gives the next
  year 1 minus these three. The odds fraction of a key is the value of the key divided by
  the sum of the values of the odds object.
\<close>

theorem combined_transition_year:
  "simpleTransitionFunction opts (Year year) =
     [(Heaven, p (agi opts year) * pFromOdds AGIOdds_values (odds (agi opts year)) heaven),
      (Dead, p (agi opts year) * pFromOdds AGIOdds_values (odds (agi opts year)) dead
           + p (nukes opts year) * pFromOdds Odds_values (odds (nukes opts year)) dead
           + p (plague opts year) * pFromOdds Odds_values (odds (plague opts year)) dead),
      (Reset, p (agi opts year) * pFromOdds AGIOdds_values (odds (agi opts year)) reset
           + p (nukes opts year) * pFromOdds Odds_values (odds (nukes opts year)) reset
           + p (plague opts year) * pFromOdds Odds_values (odds (plague opts year)) reset),
      (Year (year + 1),
         1 - p (agi opts year) * pFromOdds AGIOdds_values (odds (agi opts year)) heaven
           - (p (agi opts year) * pFromOdds AGIOdds_values (odds (agi opts year)) dead
              + p (nukes opts year) * pFromOdds Odds_values (odds (nukes opts year)) dead
              + p (plague opts year) * pFromOdds Odds_values (odds (plague opts year)) dead)
           - (p (agi opts year) * pFromOdds AGIOdds_values (odds (agi opts year)) reset
              + p (nukes opts year) * pFromOdds Odds_values (odds (nukes opts year)) reset
              + p (plague opts year) * pFromOdds Odds_values (odds (plague opts year)) reset))]
 \<and> pFromOdds AGIOdds_values (odds (agi opts year)) heaven
     = heaven (odds (agi opts year))
       / (heaven (odds (agi opts year)) + dead (odds (agi opts year)) + reset (odds (agi opts year)))
 \<and> pFromOdds AGIOdds_values (odds (agi opts year)) dead
     = dead (odds (agi opts year))
       / (heaven (odds (agi opts year)) + dead (odds (agi opts year)) + reset (odds (agi opts year)))
 \<and> pFromOdds AGIOdds_values (odds (agi opts year)) reset
     = reset (odds (agi opts year))
       / (heaven (odds (agi opts year)) + dead (odds (agi opts year)) + reset (odds (agi opts year)))
 \<and> pFromOdds Odds_values (odds (nukes opts year)) dead
     = dead (odds (nukes opts year))
       / (dead (odds (nukes opts year)) + reset (odds (nukes opts year)))
 \<and> pFromOdds Odds_values (odds (nukes opts year)) reset
     = reset (odds (nukes opts year))
       / (dead (odds (nukes opts year)) + reset (odds (nukes opts year)))
 \<and> pFromOdds Odds_values (odds (plague opts year)) dead
     = dead (odds (plague opts year))
       / (dead (odds (plague opts year)) + reset (odds (plague opts year)))
 \<and> pFromOdds Odds_values (odds (plague opts year)) reset
     = reset (odds (plague opts year))
       / (dead (odds (plague opts year)) + reset (odds (plague opts year)))"
proof -
  have "simpleTransitionFunction opts (Year year) =
     [(Heaven, p (agi opts year) * pFromOdds AGIOdds_values (odds (agi opts year)) heaven),
      (Dead, p (agi opts year) * pFromOdds AGIOdds_values (odds (agi opts year)) dead
           + p (nukes opts year) * pFromOdds Odds_values (odds (nukes opts year)) dead
           + p (plague opts year) * pFromOdds Odds_values (odds (plague opts year)) dead),
      (Reset, p (agi opts year) * pFromOdds AGIOdds_values (odds (agi opts year)) reset
           + p (nukes opts year) * pFromOdds Odds_values (odds (nukes opts year)) reset
           + p (plague opts year) * pFromOdds Odds_values (odds (plague opts year)) reset),
      (Year (year + 1),
         1 - p (agi opts year) * pFromOdds AGIOdds_values (odds (agi opts year)) heaven
           - (p (agi opts year) * pFromOdds AGIOdds_values (odds (agi opts year)) dead
              + p (nukes opts year) * pFromOdds Odds_values (odds (nukes opts year)) dead
              + p (plague opts year) * pFromOdds Odds_values (odds (plague opts year)) dead)
           - (p (agi opts year) * pFromOdds AGIOdds_values (odds (agi opts year)) reset
              + p (nukes opts year) * pFromOdds Odds_values (odds (nukes opts year)) reset
              + p (plague opts year) * pFromOdds Odds_values (odds (plague opts year)) reset))]"
    by (simp only: simpleTransitionFunction.simps Let_def new_Map_four)
  moreover have "pFromOdds AGIOdds_values obj key
      = key obj / (heaven obj + dead obj + reset obj)" for obj key
    by (simp add: pFromOdds_def AGIOdds_values_def)
  moreover have "pFromOdds Odds_values obj key = key obj / (dead obj + reset obj)" for obj key
    by (simp add: pFromOdds_def Odds_values_def)
  ultimately show ?thesis
    by (simp only: simp_thms)
qed

text \<open>
  C10. On a year, the distribution returned by the combined transition function has
  exactly four entries, with the keys \<open>heaven\<close>, \<open>dead\<close>, \<open>reset\<close> and the next
  year, whatever their probabilities are (zero included).
\<close>

theorem combined_transition_keys:
  "map fst (simpleTransitionFunction opts (Year year)) = [Heaven, Dead, Reset, Year (year + 1)]"
  by (simp only: simpleTransitionFunction.simps Let_def new_Map_four list.map fst_conv)

section \<open>The model ensemble\<close>

lemma buildModels_weights:
  "map snd (buildModels work)
     = [5 / 32, 5 / 32, 5 / 32, 5 / 32, 5 / 32, 5 / 32, 1 / 32, 1 / 32]"
  by (simp add: buildModels_def normalize_map_def total_of_def Let_def)

text \<open>
  C4. With the acceleration on and with it off, the weights of the eight transition
  functions returned by \<open>buildModels\<close> sum to 1.
\<close>

theorem buildModels_weights_sum: "total_of (buildModels work) = 1"
  by (simp add: total_of_def buildModels_weights)

end
